theory Spec2Isabelle
  imports Main "HOL-Library.Multiset"
begin

section \<open>Notification dispatcher (http\_client.py)\<close>

text \<open>
  One HTTP attempt either raises inside \<open>client.post\<close> or yields a response with a
  status code. \<open>ConnectError\<close> and \<open>TimeoutException\<close> are the transport-level
  failures (both are \<open>httpx.RequestError\<close>); \<open>Unexpected\<close> stands for any other
  \<open>Exception\<close> raised inside the \<open>try\<close> block.
\<close>

datatype transport = ConnectError | TimeoutException | Unexpected | Response nat

datatype exn = RequestError | HTTPStatusError nat | OtherError | RetryError

text \<open>
  \<open>response.raise_for_status()\<close> of the HTTP library: no exception for a 2xx code,
  \<open>HTTPStatusError\<close> otherwise.
\<close>

definition raise_for_status :: "nat \<Rightarrow> exn + unit" where
  "raise_for_status status_code =
     (if 200 \<le> status_code \<and> status_code \<le> 299 then Inr ()
      else Inl (HTTPStatusError status_code))"

text \<open>The body of the \<open>try\<close> block of \<open>send_notification_with_retry\<close>.\<close>

definition post_and_check :: "transport \<Rightarrow> exn + bool" where
  "post_and_check t =
     (case t of
        ConnectError \<Rightarrow> Inl RequestError
      | TimeoutException \<Rightarrow> Inl RequestError
      | Unexpected \<Rightarrow> Inl OtherError
      | Response status_code \<Rightarrow>
          if status_code = 201 then Inr True
          else (case raise_for_status status_code of
                  Inl e \<Rightarrow> Inl e
                | Inr _ \<Rightarrow> Inr False))"

text \<open>
  The undecorated function: the \<open>try\<close> block under its handler
  \<open>except Exception as e: ... return False\<close>.
\<close>

definition notification_attempt :: "transport \<Rightarrow> exn + bool" where
  "notification_attempt t =
     (case post_and_check t of
        Inl e \<Rightarrow> Inr False
      | Inr b \<Rightarrow> Inr b)"

text \<open>
  The decorator \<open>@retry(retry=retry_if_exception_type((RequestError, HTTPStatusError)),
  stop=stop_after_attempt(3), wait=wait_exponential(multiplier=1, min=1, max=10),
  reraise=False)\<close>. The retrying loop of the library calls the function; a returned value
  is handed back; an exception outside the retried types is raised again; a retried
  exception at the last attempt becomes \<open>RetryError\<close>; otherwise the loop sleeps and calls
  again with the attempt number increased.
\<close>

definition retry_if_exception_type :: "exn \<Rightarrow> bool" where
  "retry_if_exception_type e =
     (case e of RequestError \<Rightarrow> True | HTTPStatusError _ \<Rightarrow> True | _ \<Rightarrow> False)"

definition stop_after_attempt :: "nat \<Rightarrow> nat \<Rightarrow> bool" where
  "stop_after_attempt max_attempt_number attempt_number =
     (attempt_number \<ge> max_attempt_number)"

definition wait_exponential :: "nat \<Rightarrow> nat \<Rightarrow> nat \<Rightarrow> nat \<Rightarrow> nat" where
  "wait_exponential multiplier mn mx attempt_number =
     max (max 0 mn) (min (multiplier * 2 ^ (attempt_number - 1)) mx)"

record dispatch =
  outcome :: "exn + bool"
  attempts :: nat
  waits :: "nat list"

function retrying :: "nat \<Rightarrow> (nat \<Rightarrow> exn + bool) \<Rightarrow> nat \<Rightarrow> dispatch" where
  "retrying max_attempt_number fn attempt_number =
     (case fn attempt_number of
        Inr result \<Rightarrow> \<lparr>outcome = Inr result, attempts = attempt_number, waits = []\<rparr>
      | Inl e \<Rightarrow>
          if \<not> retry_if_exception_type e
          then \<lparr>outcome = Inl e, attempts = attempt_number, waits = []\<rparr>
          else if stop_after_attempt max_attempt_number attempt_number
          then \<lparr>outcome = Inl RetryError, attempts = attempt_number, waits = []\<rparr>
          else (let d = retrying max_attempt_number fn (attempt_number + 1)
                in d\<lparr>waits := wait_exponential 1 1 10 attempt_number # waits d\<rparr>))"
  by pat_completeness auto
termination
  by (relation "measure (\<lambda>(m, fn, n). m - n)") (auto simp: stop_after_attempt_def)

declare retrying.simps [simp del]

text \<open>
  The payload built by \<open>send_message_notification\<close> (the emoji that ends the title is
  left out), and the notification service as the code sees it: \<open>service data n\<close> is what
  the \<open>n\<close>-th POST of \<open>data\<close> does (attempts are numbered from 1).
\<close>

record notification =
  n_user_id :: string
  n_type :: string
  n_title :: string
  n_body :: string
  n_related_user_id :: string

type_synonym service = "notification \<Rightarrow> nat \<Rightarrow> transport"

text \<open>The decorated function.\<close>

definition send_notification_with_retry :: "service \<Rightarrow> notification \<Rightarrow> dispatch" where
  "send_notification_with_retry srv notification_data =
     retrying 3 (\<lambda>n. notification_attempt (srv notification_data n)) 1"

section \<open>Data model (models.py)\<close>

text \<open>
  Timestamps are abstract instants; \<open>func.now()\<close> is the instant \<open>now\<close> handed to each
  operation. The primary keys \<open>id\<close> of both tables are the fields \<open>room_id\<close> and
  \<open>msg_id\<close>; the \<open>created_at\<close> and \<open>updated_at\<close> columns carry the table's prefix.
\<close>

type_synonym datetime = nat

datatype MessageStatus = sent | delivered | read

record ChatRoomDB =
  room_id :: int
  trade_offer_id :: int
  user1_id :: string
  user2_id :: string
  is_active :: bool
  last_message_at :: "datetime option"
  room_created_at :: datetime
  room_updated_at :: datetime

record MessageDB =
  msg_id :: int
  chat_room_id :: int
  sender_id :: string
  content :: string
  status :: MessageStatus
  read_at :: "datetime option"
  msg_created_at :: datetime
  msg_updated_at :: datetime

record ChatRoomCreate =
  cr_trade_offer_id :: int
  cr_user1_id :: string
  cr_user2_id :: string

record MessageCreate =
  mc_chat_room_id :: int
  mc_sender_id :: string
  mc_content :: string

record MessageUpdate =
  mu_status :: "MessageStatus option"

record ChatRoomWithLastMessage =
  wl_id :: int
  wl_trade_offer_id :: int
  wl_user1_id :: string
  wl_user2_id :: string
  wl_is_active :: bool
  wl_last_message_at :: "datetime option"
  wl_last_message_content :: "string option"
  wl_last_message_sender_id :: "string option"
  wl_unread_count :: nat
  wl_created_at :: datetime
  wl_updated_at :: datetime

record ChatStatistics =
  total_rooms :: nat
  active_rooms :: nat
  total_messages :: nat
  total_unread_messages :: nat

text \<open>The two tables, rows in insertion order.\<close>

record database =
  chat_rooms :: "ChatRoomDB list"
  messages :: "MessageDB list"

definition empty_database :: database where
  "empty_database = \<lparr>chat_rooms = [], messages = []\<rparr>"

text \<open>
  The \<open>HTTPException\<close>s of main.py, one constructor per kind of raise site:
  404 "... not found" is \<open>NotFound\<close>; 400 "Chat room already exists for trade offer ..."
  is \<open>Conflict\<close>; 400 "Chat room ... is not active" is \<open>InvalidState\<close>; 400 "... is not
  a participant in this chat room" is \<open>Forbidden\<close>. \<open>Unhandled e\<close> is an exception
  that leaves the handler uncaught.
\<close>

datatype error = NotFound | Conflict | InvalidState | Forbidden | Unhandled exn

definition status_code :: "error \<Rightarrow> nat" where
  "status_code e =
     (case e of NotFound \<Rightarrow> 404 | Conflict \<Rightarrow> 400 | InvalidState \<Rightarrow> 400
      | Forbidden \<Rightarrow> 400 | Unhandled _ \<Rightarrow> 500)"

text \<open>The store gives a new row the next integer after the largest key in use.\<close>

definition next_id :: "int list \<Rightarrow> int" where
  "next_id ids = fold max ids 0 + 1"

text \<open>\<open>UPDATE ... WHERE id = ...\<close> on either table.\<close>

definition update_room :: "int \<Rightarrow> (ChatRoomDB \<Rightarrow> ChatRoomDB) \<Rightarrow> database \<Rightarrow> database" where
  "update_room rid f db =
     db\<lparr>chat_rooms := map (\<lambda>r. if room_id r = rid then f r else r) (chat_rooms db)\<rparr>"

definition update_msg :: "int \<Rightarrow> (MessageDB \<Rightarrow> MessageDB) \<Rightarrow> database \<Rightarrow> database" where
  "update_msg mid f db =
     db\<lparr>messages := map (\<lambda>m. if msg_id m = mid then f m else m) (messages db)\<rparr>"

section \<open>Chat room endpoints (main.py)\<close>

definition create_chat_room ::
  "datetime \<Rightarrow> ChatRoomCreate \<Rightarrow> database \<Rightarrow> (error + ChatRoomDB) \<times> database" where
  "create_chat_room now chat_room db =
     (case find (\<lambda>r. trade_offer_id r = cr_trade_offer_id chat_room) (chat_rooms db) of
        Some existing_room \<Rightarrow> (Inl Conflict, db)
      | None \<Rightarrow>
          (let db_chat_room =
                 \<lparr>room_id = next_id (map room_id (chat_rooms db)),
                  trade_offer_id = cr_trade_offer_id chat_room,
                  user1_id = cr_user1_id chat_room,
                  user2_id = cr_user2_id chat_room,
                  is_active = True,
                  last_message_at = None,
                  room_created_at = now,
                  room_updated_at = now\<rparr>
           in (Inr db_chat_room, db\<lparr>chat_rooms := chat_rooms db @ [db_chat_room]\<rparr>)))"

definition get_chat_room :: "int \<Rightarrow> database \<Rightarrow> error + ChatRoomDB" where
  "get_chat_room chat_room_id' db =
     (case find (\<lambda>r. room_id r = chat_room_id') (chat_rooms db) of
        None \<Rightarrow> Inl NotFound
      | Some chat_room \<Rightarrow> Inr chat_room)"

definition deactivate_chat_room ::
  "datetime \<Rightarrow> int \<Rightarrow> database \<Rightarrow> (error + ChatRoomDB) \<times> database" where
  "deactivate_chat_room now chat_room_id' db =
     (case find (\<lambda>r. room_id r = chat_room_id') (chat_rooms db) of
        None \<Rightarrow> (Inl NotFound, db)
      | Some chat_room \<Rightarrow>
          (let deactivate =
                 (\<lambda>r. if is_active r then r\<lparr>is_active := False, room_updated_at := now\<rparr>
                      else r)
           in (Inr (deactivate chat_room), update_room chat_room_id' deactivate db)))"

text \<open>
  Modelled from the spec: where \<open>ORDER BY ... DESC\<close> puts the rows whose key is NULL.
  That is a property of the database engine, which the file database.py (absent from the
  sources) selects; the spec says that rooms with no messages sort last, treated as
  earliest. \<open>desc_before a b\<close>: a row with key \<open>a\<close> may stand before a row with key
  \<open>b\<close>.
\<close>

fun desc_before :: "datetime option \<Rightarrow> datetime option \<Rightarrow> bool" where
  "desc_before a None = True"
| "desc_before None (Some y) = False"
| "desc_before (Some x) (Some y) = (y \<le> x)"

text \<open>
  \<open>query.order_by(desc(key))\<close> as a stable insertion sort (rows with equal keys keep
  their table order; the store promises no order among them).
\<close>

fun insert_desc :: "('a \<Rightarrow> datetime option) \<Rightarrow> 'a \<Rightarrow> 'a list \<Rightarrow> 'a list" where
  "insert_desc key x [] = [x]"
| "insert_desc key x (y # ys) =
     (if desc_before (key x) (key y) then x # y # ys else y # insert_desc key x ys)"

fun order_by_desc :: "('a \<Rightarrow> datetime option) \<Rightarrow> 'a list \<Rightarrow> 'a list" where
  "order_by_desc key [] = []"
| "order_by_desc key (x # xs) = insert_desc key x (order_by_desc key xs)"

text \<open>\<open>.first()\<close> of a query, and \<open>count(...)\<close> with \<open>.scalar()\<close>; \<open>v or 0\<close>.\<close>

definition first :: "'a list \<Rightarrow> 'a option" where
  "first rows = (case rows of [] \<Rightarrow> None | x # _ \<Rightarrow> Some x)"

definition count_scalar :: "'a list \<Rightarrow> nat option" where
  "count_scalar rows = Some (length rows)"

definition or_0 :: "nat option \<Rightarrow> nat" where
  "or_0 v = (case v of None \<Rightarrow> 0 | Some n \<Rightarrow> if n = 0 then 0 else n)"

text \<open>The body of the loop of \<open>list_chat_rooms\<close>: one room with its preview.\<close>

definition room_data :: "string \<Rightarrow> database \<Rightarrow> ChatRoomDB \<Rightarrow> ChatRoomWithLastMessage" where
  "room_data user_id db room =
     (let last_message =
            first (order_by_desc (\<lambda>m. Some (msg_created_at m))
                     (filter (\<lambda>m. chat_room_id m = room_id room) (messages db)));
          unread_count =
            count_scalar
              (filter (\<lambda>m. chat_room_id m = room_id room \<and> sender_id m \<noteq> user_id
                          \<and> status m \<noteq> read) (messages db))
      in \<lparr>wl_id = room_id room,
          wl_trade_offer_id = trade_offer_id room,
          wl_user1_id = user1_id room,
          wl_user2_id = user2_id room,
          wl_is_active = is_active room,
          wl_last_message_at = last_message_at room,
          wl_last_message_content = map_option content last_message,
          wl_last_message_sender_id = map_option sender_id last_message,
          wl_unread_count = or_0 unread_count,
          wl_created_at = room_created_at room,
          wl_updated_at = room_updated_at room\<rparr>)"

definition list_chat_rooms ::
  "string \<Rightarrow> bool \<Rightarrow> nat \<Rightarrow> nat \<Rightarrow> database \<Rightarrow> ChatRoomWithLastMessage list" where
  "list_chat_rooms user_id active_only skip limit db =
     (let query = filter (\<lambda>r. user1_id r = user_id \<or> user2_id r = user_id) (chat_rooms db);
          query1 = (if active_only then filter (\<lambda>r. is_active r) query else query);
          query2 = order_by_desc last_message_at query1;
          rooms = take limit (drop skip query2)
      in map (room_data user_id db) rooms)"

section \<open>Message endpoints (main.py)\<close>

definition send_message_notification ::
  "service \<Rightarrow> MessageDB \<Rightarrow> string \<Rightarrow> exn + unit" where
  "send_message_notification srv message recipient_id =
     (let notification_data =
            \<lparr>n_user_id = recipient_id,
             n_type = ''new_message'',
             n_title = ''New Message'',
             n_body = ''You have a new message'',
             n_related_user_id = sender_id message\<rparr>
      in case outcome (send_notification_with_retry srv notification_data) of
           Inl e \<Rightarrow> Inl e
         | Inr _ \<Rightarrow> Inr ())"

definition send_message ::
  "service \<Rightarrow> datetime \<Rightarrow> MessageCreate \<Rightarrow> database \<Rightarrow> (error + MessageDB) \<times> database" where
  "send_message srv now message db =
     (case find (\<lambda>r. room_id r = mc_chat_room_id message) (chat_rooms db) of
        None \<Rightarrow> (Inl NotFound, db)
      | Some chat_room \<Rightarrow>
          if \<not> is_active chat_room then (Inl InvalidState, db)
          else if mc_sender_id message \<notin> set [user1_id chat_room, user2_id chat_room]
          then (Inl Forbidden, db)
          else
            (let db_message =
                   \<lparr>msg_id = next_id (map msg_id (messages db)),
                    chat_room_id = mc_chat_room_id message,
                    sender_id = mc_sender_id message,
                    content = mc_content message,
                    status = sent,
                    read_at = None,
                    msg_created_at = now,
                    msg_updated_at = now\<rparr>;
                 db1 = db\<lparr>messages := messages db @ [db_message]\<rparr>;
                 db2 = update_room (room_id chat_room)
                         (\<lambda>r. r\<lparr>last_message_at := Some now, room_updated_at := now\<rparr>) db1;
                 recipient_id =
                   (if mc_sender_id message = user1_id chat_room then user2_id chat_room
                    else user1_id chat_room)
             in case send_message_notification srv db_message recipient_id of
                  Inl e \<Rightarrow> (Inl (Unhandled e), db2)
                | Inr _ \<Rightarrow> (Inr db_message, db2)))"

definition get_message :: "int \<Rightarrow> database \<Rightarrow> error + MessageDB" where
  "get_message message_id db =
     (case find (\<lambda>m. msg_id m = message_id) (messages db) of
        None \<Rightarrow> Inl NotFound
      | Some message \<Rightarrow> Inr message)"

text \<open>
  \<open>if message_update.status:\<close> holds for each of the three status values (non-empty
  strings) and fails for \<open>None\<close>; \<open>not message.read_at\<close> holds exactly for \<open>None\<close>.
  A row whose columns all keep their values is not written, so \<open>updated_at\<close> moves only
  when the status or the read timestamp does.
\<close>

definition update_message ::
  "datetime \<Rightarrow> int \<Rightarrow> MessageUpdate \<Rightarrow> database \<Rightarrow> (error + MessageDB) \<times> database" where
  "update_message now message_id message_update db =
     (case find (\<lambda>m. msg_id m = message_id) (messages db) of
        None \<Rightarrow> (Inl NotFound, db)
      | Some message \<Rightarrow>
          (case mu_status message_update of
             None \<Rightarrow> (Inr message, db)
           | Some new_status \<Rightarrow>
               (let write =
                      (\<lambda>m. let m1 = m\<lparr>status := new_status\<rparr>;
                               m2 = (if new_status = read \<and> read_at m1 = None
                                     then m1\<lparr>read_at := Some now\<rparr> else m1)
                           in if m2 = m then m else m2\<lparr>msg_updated_at := now\<rparr>)
                in (Inr (write message), update_msg message_id write db))))"

text \<open>
  The filter of the bulk update of \<open>mark_messages_as_read\<close> and the assignment it makes
  to each selected row.
\<close>

definition unread_from_other :: "int \<Rightarrow> string \<Rightarrow> MessageDB \<Rightarrow> bool" where
  "unread_from_other chat_room_id' user_id m =
     (chat_room_id m = chat_room_id' \<and> sender_id m \<noteq> user_id \<and> status m \<noteq> read)"

definition set_read :: "datetime \<Rightarrow> MessageDB \<Rightarrow> MessageDB" where
  "set_read now m = m\<lparr>status := read, read_at := Some now, msg_updated_at := now\<rparr>"

definition mark_messages_as_read ::
  "datetime \<Rightarrow> int \<Rightarrow> string \<Rightarrow> database \<Rightarrow> (error + nat) \<times> database" where
  "mark_messages_as_read now chat_room_id' user_id db =
     (case find (\<lambda>r. room_id r = chat_room_id') (chat_rooms db) of
        None \<Rightarrow> (Inl NotFound, db)
      | Some chat_room \<Rightarrow>
          if user_id \<notin> set [user1_id chat_room, user2_id chat_room]
          then (Inl Forbidden, db)
          else
            (let updated_count =
                   length (filter (unread_from_other chat_room_id' user_id) (messages db))
             in (Inr updated_count,
                 db\<lparr>messages :=
                      map (\<lambda>m. if unread_from_other chat_room_id' user_id m
                                then set_read now m else m)
                          (messages db)\<rparr>)))"

section \<open>Statistics endpoint (main.py)\<close>

text \<open>\<open>if user_id:\<close> holds for a user id that is given and is not the empty string.\<close>

definition truthy :: "string option \<Rightarrow> bool" where
  "truthy user_id = (case user_id of None \<Rightarrow> False | Some u \<Rightarrow> u \<noteq> [])"

definition user_statistics :: "string \<Rightarrow> database \<Rightarrow> ChatStatistics" where
  "user_statistics user_id db =
     (let total_rooms' =
            count_scalar
              (filter (\<lambda>r. user1_id r = user_id \<or> user2_id r = user_id) (chat_rooms db));
          active_rooms' =
            count_scalar
              (filter (\<lambda>r. (user1_id r = user_id \<or> user2_id r = user_id) \<and> is_active r)
                 (chat_rooms db));
          room_ids =
            map room_id
              (filter (\<lambda>r. user1_id r = user_id \<or> user2_id r = user_id) (chat_rooms db));
          total_messages' =
            (if room_ids \<noteq> []
             then count_scalar (filter (\<lambda>m. chat_room_id m \<in> set room_ids) (messages db))
             else Some 0);
          total_unread_messages' =
            (if room_ids \<noteq> []
             then count_scalar
                    (filter (\<lambda>m. chat_room_id m \<in> set room_ids \<and> sender_id m \<noteq> user_id
                                \<and> status m \<noteq> read) (messages db))
             else Some 0)
      in \<lparr>total_rooms = or_0 total_rooms',
          active_rooms = or_0 active_rooms',
          total_messages = or_0 total_messages',
          total_unread_messages = or_0 total_unread_messages'\<rparr>)"

definition global_statistics :: "database \<Rightarrow> ChatStatistics" where
  "global_statistics db =
     (let total_rooms' = count_scalar (chat_rooms db);
          active_rooms' = count_scalar (filter (\<lambda>r. is_active r) (chat_rooms db));
          total_messages' = count_scalar (messages db);
          total_unread_messages' =
            count_scalar (filter (\<lambda>m. status m \<noteq> read) (messages db))
      in \<lparr>total_rooms = or_0 total_rooms',
          active_rooms = or_0 active_rooms',
          total_messages = or_0 total_messages',
          total_unread_messages = or_0 total_unread_messages'\<rparr>)"

definition get_statistics :: "string option \<Rightarrow> database \<Rightarrow> ChatStatistics" where
  "get_statistics user_id db =
     (case user_id of
        None \<Rightarrow> global_statistics db
      | Some u \<Rightarrow> if truthy (Some u) then user_statistics u db else global_statistics db)"

text \<open>
  The rooms a statistics call ranges over: the rooms of the user when the user branch is
  taken, every room otherwise.
\<close>

definition scope :: "string option \<Rightarrow> database \<Rightarrow> ChatRoomDB list" where
  "scope user_id db =
     (case user_id of
        None \<Rightarrow> chat_rooms db
      | Some u \<Rightarrow>
          if truthy (Some u)
          then filter (\<lambda>r. user1_id r = u \<or> user2_id r = u) (chat_rooms db)
          else chat_rooms db)"

text \<open>The room columns of an entry of the room list, and the participants of a room.\<close>

definition shown_room :: "ChatRoomWithLastMessage \<Rightarrow> ChatRoomDB" where
  "shown_room e =
     \<lparr>room_id = wl_id e,
      trade_offer_id = wl_trade_offer_id e,
      user1_id = wl_user1_id e,
      user2_id = wl_user2_id e,
      is_active = wl_is_active e,
      last_message_at = wl_last_message_at e,
      room_created_at = wl_created_at e,
      room_updated_at = wl_updated_at e\<rparr>"

definition participants :: "ChatRoomDB \<Rightarrow> int \<times> string \<times> string" where
  "participants r = (room_id r, user1_id r, user2_id r)"

section \<open>The store under sequences of operations\<close>

text \<open>
  The operations that write to the store, each with the instant at which it runs. A call
  that fails leaves the store as it was.
\<close>

datatype operation =
    CreateRoom datetime ChatRoomCreate
  | Deactivate datetime int
  | SendMessage service datetime MessageCreate
  | UpdateStatus datetime int MessageUpdate
  | MarkRoomRead datetime int string

fun step :: "operation \<Rightarrow> database \<Rightarrow> database" where
  "step (CreateRoom now chat_room) db = snd (create_chat_room now chat_room db)"
| "step (Deactivate now rid) db = snd (deactivate_chat_room now rid db)"
| "step (SendMessage srv now message) db = snd (send_message srv now message db)"
| "step (UpdateStatus now mid message_update) db = snd (update_message now mid message_update db)"
| "step (MarkRoomRead now rid uid) db = snd (mark_messages_as_read now rid uid db)"

fun run :: "operation list \<Rightarrow> database \<Rightarrow> database" where
  "run [] db = db"
| "run (x # xs) db = run xs (step x db)"

text \<open>
  An update is regressing when it writes a status other than \<open>read\<close> over a message
  that carries a read timestamp. \<open>forward_only ops db\<close>: no step of the run is one.
\<close>

definition regressing :: "operation \<Rightarrow> database \<Rightarrow> bool" where
  "regressing x db =
     (case x of
        UpdateStatus now mid message_update \<Rightarrow>
          (case mu_status message_update of
             None \<Rightarrow> False
           | Some new_status \<Rightarrow>
               new_status \<noteq> read
               \<and> list_ex (\<lambda>m. msg_id m = mid \<and> read_at m \<noteq> None) (messages db))
      | _ \<Rightarrow> False)"

fun forward_only :: "operation list \<Rightarrow> database \<Rightarrow> bool" where
  "forward_only [] db = True"
| "forward_only (x # xs) db = (\<not> regressing x db \<and> forward_only xs (step x db))"

text \<open>The two directions of the read invariant, on every message of the store.\<close>

definition read_has_timestamp :: "database \<Rightarrow> bool" where
  "read_has_timestamp db = list_all (\<lambda>m. status m = read \<longrightarrow> read_at m \<noteq> None) (messages db)"

definition timestamp_has_read :: "database \<Rightarrow> bool" where
  "timestamp_has_read db = list_all (\<lambda>m. read_at m \<noteq> None \<longrightarrow> status m = read) (messages db)"

text \<open>The foreign key of the messages table: every message belongs to a stored room.\<close>

definition foreign_key_ok :: "database \<Rightarrow> bool" where
  "foreign_key_ok db =
     list_all (\<lambda>m. chat_room_id m \<in> set (map room_id (chat_rooms db))) (messages db)"


section \<open>Example data\<close>

definition alice_bob_room :: ChatRoomDB where
  "alice_bob_room =
     \<lparr>room_id = 1, trade_offer_id = 100, user1_id = ''alice'', user2_id = ''bob'',
      is_active = True, last_message_at = Some 2, room_created_at = 1, room_updated_at = 2\<rparr>"

definition hi_message :: MessageDB where
  "hi_message =
     \<lparr>msg_id = 1, chat_room_id = 1, sender_id = ''alice'', content = ''hi'',
      status = sent, read_at = None, msg_created_at = 2, msg_updated_at = 2\<rparr>"

definition alice_bob_db :: database where
  "alice_bob_db = \<lparr>chat_rooms = [alice_bob_room], messages = [hi_message]\<rparr>"

definition failing_service :: service where
  "failing_service = (\<lambda>d n. Response 500)"

definition create_alice_bob :: operation where
  "create_alice_bob =
     CreateRoom 1 \<lparr>cr_trade_offer_id = 100, cr_user1_id = ''alice'', cr_user2_id = ''bob''\<rparr>"

definition alice_says_hi :: operation where
  "alice_says_hi =
     SendMessage failing_service 2
       \<lparr>mc_chat_room_id = 1, mc_sender_id = ''alice'', mc_content = ''hi''\<rparr>"

definition closed_room_db :: database where
  "closed_room_db = \<lparr>chat_rooms = [alice_bob_room\<lparr>is_active := False\<rparr>], messages = [hi_message]\<rparr>"

definition three_rooms_db :: database where
  "three_rooms_db =
     \<lparr>chat_rooms =
        [alice_bob_room,
         \<lparr>room_id = 2, trade_offer_id = 101, user1_id = ''carol'', user2_id = ''alice'',
          is_active = True, last_message_at = None, room_created_at = 3, room_updated_at = 3\<rparr>,
         \<lparr>room_id = 3, trade_offer_id = 102, user1_id = ''alice'', user2_id = ''dave'',
          is_active = True, last_message_at = Some 7, room_created_at = 4, room_updated_at = 7\<rparr>,
         \<lparr>room_id = 4, trade_offer_id = 103, user1_id = ''carol'', user2_id = ''dave'',
          is_active = True, last_message_at = Some 9, room_created_at = 5, room_updated_at = 9\<rparr>],
      messages = [hi_message]\<rparr>"

lemmas example_defs =
  alice_bob_room_def hi_message_def alice_bob_db_def failing_service_def
  create_alice_bob_def alice_says_hi_def empty_database_def

lemmas endpoint_defs =
  create_chat_room_def deactivate_chat_room_def send_message_def update_message_def
  mark_messages_as_read_def unread_from_other_def set_read_def
  send_message_notification_def send_notification_with_retry_def
  notification_attempt_def post_and_check_def raise_for_status_def
  update_room_def update_msg_def next_id_def Let_def

section \<open>Properties of the notification dispatcher\<close>

lemma notification_attempt_returns:
  "\<exists>b. notification_attempt t = Inr b"
  by (cases "post_and_check t") (auto simp: notification_attempt_def)

lemma retrying_returned_first:
  "fn n = Inr b \<Longrightarrow> retrying m fn n = \<lparr>outcome = Inr b, attempts = n, waits = []\<rparr>"
  by (simp add: retrying.simps)

lemma send_notification_one_attempt:
  "\<exists>b. send_notification_with_retry srv d = \<lparr>outcome = Inr b, attempts = 1, waits = []\<rparr>"
proof -
  obtain b where "notification_attempt (srv d 1) = Inr b"
    using notification_attempt_returns by blast
  then have "send_notification_with_retry srv d = \<lparr>outcome = Inr b, attempts = 1, waits = []\<rparr>"
    unfolding send_notification_with_retry_def by (simp add: retrying_returned_first)
  then show ?thesis by blast
qed

text \<open>
  What the retry policy does with the \<open>try\<close> block alone, were its exceptions to reach the
  decorator: three attempts, waits of 1 and 2 units, then \<open>RetryError\<close>.
\<close>

lemma retry_policy_on_unhandled_body:
  "retrying 3 (\<lambda>n. post_and_check (Response 500)) 1
     = \<lparr>outcome = Inl RetryError, attempts = 3, waits = [1, 2]\<rparr>"
  by (simp add: retrying.simps post_and_check_def raise_for_status_def
      retry_if_exception_type_def stop_after_attempt_def wait_exponential_def)

text \<open>
  C1. Claimed: a failed attempt (transport error or non-201 status) triggers another
  attempt, up to 3 in total, with waits of 1, 2, ... units. On the code, with the
  notification service answering HTTP 500 every time, the dispatcher makes one attempt,
  waits for nothing and returns \<open>False\<close>: the handler inside the function turns every
  exception into a returned value before the retry decorator sees it.
\<close>

theorem dispatch_http_500_single_attempt:
  "send_notification_with_retry (\<lambda>d n. Response 500)
       \<lparr>n_user_id = ''bob'', n_type = ''new_message'', n_title = ''New Message'',
        n_body = ''You have a new message'', n_related_user_id = ''alice''\<rparr>
     = \<lparr>outcome = Inr False, attempts = 1, waits = []\<rparr>"
  by (simp add: send_notification_with_retry_def retrying.simps notification_attempt_def
      post_and_check_def raise_for_status_def)


section \<open>Generic facts about the store\<close>

lemma find_SomeD: "find P xs = Some x \<Longrightarrow> P x \<and> x \<in> set xs"
  by (induction xs) (auto split: if_splits)

lemma snd_sum_case: "snd (case s of Inl e \<Rightarrow> (f e, d) | Inr v \<Rightarrow> (g v, d)) = d"
  by (cases s) simp_all

lemma messages_update_room [simp]: "messages (update_room i f db) = messages db"
  by (simp add: update_room_def)

lemma chat_rooms_update_msg [simp]: "chat_rooms (update_msg i f db) = chat_rooms db"
  by (simp add: update_msg_def)

lemma messages_create: "messages (snd (create_chat_room now c db)) = messages db"
  by (simp add: create_chat_room_def Let_def split: option.splits)

lemma messages_deactivate: "messages (snd (deactivate_chat_room now i db)) = messages db"
  by (simp add: deactivate_chat_room_def Let_def split: option.splits)

lemma messages_send:
  "messages (snd (send_message srv now msg db)) = messages db
   \<or> (\<exists>m. messages (snd (send_message srv now msg db)) = messages db @ [m]
          \<and> status m = sent \<and> read_at m = None
          \<and> chat_room_id m \<in> set (map room_id (chat_rooms db)))"
proof (cases "find (\<lambda>r. room_id r = mc_chat_room_id msg) (chat_rooms db)")
  case None
  then show ?thesis by (simp add: send_message_def)
next
  case (Some chat_room)
  then have "mc_chat_room_id msg \<in> set (map room_id (chat_rooms db))"
    using find_SomeD [OF Some] by force
  with Some show ?thesis
    by (simp add: send_message_def Let_def snd_sum_case)
qed

lemma notification_never_raises:
  "send_message_notification srv m r = Inr ()"
proof -
  obtain b where "outcome (send_notification_with_retry srv
      \<lparr>n_user_id = r, n_type = ''new_message'', n_title = ''New Message'',
       n_body = ''You have a new message'', n_related_user_id = sender_id m\<rparr>) = Inr b"
    using send_notification_one_attempt by (metis dispatch.select_convs(1))
  then show ?thesis
    by (simp add: send_message_notification_def)
qed

section \<open>Sending a message\<close>

text \<open>
  C2. For every notification service and every payload the dispatch call returns a
  boolean and raises nothing. Hence a \<open>send_message\<close> call that passes its checks (room
  found, room active, sender a participant) returns the message it persisted, with status
  \<open>sent\<close>, and both the result and the store are the same whatever the notification
  service does.
\<close>

theorem send_message_independent_of_notification:
  assumes "find (\<lambda>r. room_id r = mc_chat_room_id message) (chat_rooms db) = Some chat_room"
      and "is_active chat_room"
      and "mc_sender_id message = user1_id chat_room \<or> mc_sender_id message = user2_id chat_room"
  shows "(\<exists>b. outcome (send_notification_with_retry srv d) = Inr b)
       \<and> (\<exists>m. fst (send_message srv now message db) = Inr m
              \<and> status m = sent
              \<and> m \<in> set (messages (snd (send_message srv now message db))))
       \<and> send_message srv now message db = send_message srv' now message db"
proof -
  have "\<exists>b. outcome (send_notification_with_retry srv d) = Inr b"
    using send_notification_one_attempt by (metis dispatch.select_convs(1))
  then show ?thesis
    using assms by (auto simp: send_message_def Let_def notification_never_raises)
qed

theorem send_message_independent_of_notification_witness:
  "(\<exists>b. outcome (send_notification_with_retry failing_service
           \<lparr>n_user_id = ''bob'', n_type = ''new_message'', n_title = ''New Message'',
            n_body = ''You have a new message'', n_related_user_id = ''alice''\<rparr>) = Inr b)
   \<and> (\<exists>m. fst (send_message failing_service 5
                \<lparr>mc_chat_room_id = 1, mc_sender_id = ''alice'', mc_content = ''again''\<rparr>
                alice_bob_db) = Inr m
          \<and> status m = sent
          \<and> m \<in> set (messages (snd (send_message failing_service 5
                \<lparr>mc_chat_room_id = 1, mc_sender_id = ''alice'', mc_content = ''again''\<rparr>
                alice_bob_db))))
   \<and> send_message failing_service 5
        \<lparr>mc_chat_room_id = 1, mc_sender_id = ''alice'', mc_content = ''again''\<rparr> alice_bob_db
     = send_message (\<lambda>d n. Response 201) 5
        \<lparr>mc_chat_room_id = 1, mc_sender_id = ''alice'', mc_content = ''again''\<rparr> alice_bob_db"
proof -
  have f: "find (\<lambda>r. room_id r = mc_chat_room_id
                 \<lparr>mc_chat_room_id = 1, mc_sender_id = ''alice'', mc_content = ''again''\<rparr>)
             (chat_rooms alice_bob_db) = Some alice_bob_room"
    by (simp add: alice_bob_db_def alice_bob_room_def)
  have a: "is_active alice_bob_room"
    by (simp add: alice_bob_room_def)
  have p: "mc_sender_id \<lparr>mc_chat_room_id = 1, mc_sender_id = ''alice'', mc_content = ''again''\<rparr>
             = user1_id alice_bob_room
         \<or> mc_sender_id \<lparr>mc_chat_room_id = 1, mc_sender_id = ''alice'', mc_content = ''again''\<rparr>
             = user2_id alice_bob_room"
    by (simp add: alice_bob_room_def)
  show ?thesis
    by (rule send_message_independent_of_notification [OF f a p])
qed

section \<open>The read invariant\<close>

lemma step_read_has_timestamp:
  "read_has_timestamp db \<Longrightarrow> read_has_timestamp (step x db)"
proof (cases x)
  case (CreateRoom now c)
  then show "read_has_timestamp db \<Longrightarrow> ?thesis"
    by (simp add: read_has_timestamp_def messages_create)
next
  case (Deactivate now i)
  then show "read_has_timestamp db \<Longrightarrow> ?thesis"
    by (simp add: read_has_timestamp_def messages_deactivate)
next
  case (SendMessage srv now msg)
  then show "read_has_timestamp db \<Longrightarrow> ?thesis"
    using messages_send [of srv now msg db]
    by (auto simp: read_has_timestamp_def)
next
  case (UpdateStatus now mid mu)
  then show "read_has_timestamp db \<Longrightarrow> ?thesis"
    by (auto simp: read_has_timestamp_def update_message_def update_msg_def Let_def
        list_all_iff split: option.splits if_splits)
next
  case (MarkRoomRead now rid uid)
  then show "read_has_timestamp db \<Longrightarrow> ?thesis"
    by (auto simp: read_has_timestamp_def mark_messages_as_read_def Let_def set_read_def
        list_all_iff split: option.splits)
qed

lemma step_timestamp_has_read:
  "timestamp_has_read db \<Longrightarrow> \<not> regressing x db \<Longrightarrow> timestamp_has_read (step x db)"
proof (cases x)
  case (CreateRoom now c)
  then show "timestamp_has_read db \<Longrightarrow> ?thesis"
    by (simp add: timestamp_has_read_def messages_create)
next
  case (Deactivate now i)
  then show "timestamp_has_read db \<Longrightarrow> ?thesis"
    by (simp add: timestamp_has_read_def messages_deactivate)
next
  case (SendMessage srv now msg)
  then show "timestamp_has_read db \<Longrightarrow> ?thesis"
    using messages_send [of srv now msg db]
    by (auto simp: timestamp_has_read_def)
next
  case (UpdateStatus now mid mu)
  then show "timestamp_has_read db \<Longrightarrow> \<not> regressing x db \<Longrightarrow> ?thesis"
    by (auto simp: timestamp_has_read_def update_message_def update_msg_def Let_def
        regressing_def list_all_iff list_ex_iff split: option.splits if_splits)
next
  case (MarkRoomRead now rid uid)
  then show "timestamp_has_read db \<Longrightarrow> ?thesis"
    by (auto simp: timestamp_has_read_def mark_messages_as_read_def Let_def set_read_def
        list_all_iff split: option.splits)
qed

lemma run_read_has_timestamp:
  "read_has_timestamp db \<Longrightarrow> read_has_timestamp (run ops db)"
  by (induction ops arbitrary: db) (simp_all add: step_read_has_timestamp)

lemma run_timestamp_has_read:
  "timestamp_has_read db \<Longrightarrow> forward_only ops db \<Longrightarrow> timestamp_has_read (run ops db)"
  by (induction ops arbitrary: db) (simp_all add: step_timestamp_has_read)

text \<open>
  C3, as claimed, fails: create a room, send a message, set its status to \<open>read\<close> at
  instant 3, then set its status to \<open>sent\<close>. \<open>update_message\<close> writes the new status
  and leaves the read timestamp, so the message has status \<open>sent\<close> and a read timestamp.
\<close>

theorem read_iff_timestamp_counterexample:
  "map (\<lambda>m. (status m, read_at m))
     (messages (run [create_alice_bob, alice_says_hi,
                     UpdateStatus 3 1 \<lparr>mu_status = Some read\<rparr>,
                     UpdateStatus 4 1 \<lparr>mu_status = Some sent\<rparr>] empty_database))
   = [(sent, Some 3)]
   \<and> \<not> timestamp_has_read
         (run [create_alice_bob, alice_says_hi,
               UpdateStatus 3 1 \<lparr>mu_status = Some read\<rparr>,
               UpdateStatus 4 1 \<lparr>mu_status = Some sent\<rparr>] empty_database)"
  by (simp add: example_defs endpoint_defs retrying.simps timestamp_has_read_def)

text \<open>
  C3, amended. In every store reached from the empty one by creating and deactivating
  rooms, sending messages, updating statuses and marking rooms read, every message with
  status \<open>read\<close> has a read timestamp. The converse (a message with a read timestamp has
  status \<open>read\<close>) holds in every store reached without a status update that writes a
  status other than \<open>read\<close> over a message that has a read timestamp.
\<close>

theorem read_invariant:
  "read_has_timestamp (run ops empty_database)
   \<and> (forward_only ops empty_database \<longrightarrow> timestamp_has_read (run ops empty_database))"
  using run_read_has_timestamp [of empty_database ops]
        run_timestamp_has_read [of empty_database ops]
  by (simp add: read_has_timestamp_def timestamp_has_read_def empty_database_def)

theorem read_invariant_witness:
  "read_has_timestamp
     (run [create_alice_bob, alice_says_hi, UpdateStatus 3 1 \<lparr>mu_status = Some read\<rparr>]
        empty_database)
   \<and> forward_only [create_alice_bob, alice_says_hi, UpdateStatus 3 1 \<lparr>mu_status = Some read\<rparr>]
        empty_database
   \<and> timestamp_has_read
       (run [create_alice_bob, alice_says_hi, UpdateStatus 3 1 \<lparr>mu_status = Some read\<rparr>]
          empty_database)"
proof -
  have f: "forward_only
             [create_alice_bob, alice_says_hi, UpdateStatus 3 1 \<lparr>mu_status = Some read\<rparr>]
             empty_database"
    by (simp add: example_defs regressing_def)
  show ?thesis
    using f read_invariant
            [of "[create_alice_bob, alice_says_hi, UpdateStatus 3 1 \<lparr>mu_status = Some read\<rparr>]"]
    by blast
qed

section \<open>Marking a room read\<close>

lemma set_read_not_selected: "\<not> unread_from_other rid uid (set_read now m)"
  by (simp add: unread_from_other_def set_read_def)

lemma mark_step_not_selected:
  "\<not> unread_from_other rid uid (if unread_from_other rid uid m then set_read now m else m)"
  by (simp add: set_read_not_selected)

text \<open>
  C4. For a stored room and one of its two participants, \<open>mark_messages_as_read\<close>
  succeeds, and calling it again on the store it left (at any later instant) returns an
  updated count of 0 and leaves that store exactly as it was: no row changes, so no
  message marked read before changes its read timestamp.
\<close>

theorem mark_messages_as_read_idempotent:
  assumes "find (\<lambda>r. room_id r = rid) (chat_rooms db) = Some chat_room"
      and "uid = user1_id chat_room \<or> uid = user2_id chat_room"
  shows "\<exists>n. mark_messages_as_read now rid uid db
                = (Inr n, snd (mark_messages_as_read now rid uid db))
         \<and> mark_messages_as_read now' rid uid (snd (mark_messages_as_read now rid uid db))
                = (Inr 0, snd (mark_messages_as_read now rid uid db))"
proof -
  define upd where "upd = (\<lambda>m. if unread_from_other rid uid m then set_read now m else m)"
  define db1 where "db1 = db\<lparr>messages := map upd (messages db)\<rparr>"
  have first: "mark_messages_as_read now rid uid db
                 = (Inr (length (filter (unread_from_other rid uid) (messages db))), db1)"
    using assms by (auto simp: mark_messages_as_read_def Let_def db1_def upd_def)
  have sel: "\<And>m. \<not> unread_from_other rid uid (upd m)"
    unfolding upd_def by (rule mark_step_not_selected)
  have none: "filter (unread_from_other rid uid) (map upd (messages db)) = []"
    by (simp add: filter_empty_conv sel)
  have same: "map (\<lambda>m. if unread_from_other rid uid m then set_read now' m else m)
                (map upd (messages db)) = map upd (messages db)"
    by (rule map_idI) (use sel in auto)
  have r: "find (\<lambda>r. room_id r = rid) (chat_rooms db1) = Some chat_room"
    using assms(1) by (simp add: db1_def)
  have m: "messages db1 = map upd (messages db)"
    by (simp add: db1_def)
  have second: "mark_messages_as_read now' rid uid db1 = (Inr 0, db1)"
    unfolding mark_messages_as_read_def Let_def r m
    using assms(2) none same by (auto simp: db1_def)
  show ?thesis using first second by simp
qed

theorem mark_messages_as_read_idempotent_witness:
  "\<exists>n. mark_messages_as_read 5 1 ''bob'' alice_bob_db
          = (Inr n, snd (mark_messages_as_read 5 1 ''bob'' alice_bob_db))
       \<and> mark_messages_as_read 6 1 ''bob'' (snd (mark_messages_as_read 5 1 ''bob'' alice_bob_db))
          = (Inr 0, snd (mark_messages_as_read 5 1 ''bob'' alice_bob_db))"
proof -
  have f: "find (\<lambda>r. room_id r = 1) (chat_rooms alice_bob_db) = Some alice_bob_room"
    by (simp add: alice_bob_db_def alice_bob_room_def)
  have p: "''bob'' = user1_id alice_bob_room \<or> ''bob'' = user2_id alice_bob_room"
    by (simp add: alice_bob_room_def)
  show ?thesis
    by (rule mark_messages_as_read_idempotent [OF f p])
qed

lemma mark_read_example:
  "mark_messages_as_read 5 1 ''bob'' alice_bob_db
     = (Inr 1, \<lparr>chat_rooms = [alice_bob_room],
                messages = [hi_message\<lparr>status := read, read_at := Some 5,
                                        msg_updated_at := 5\<rparr>]\<rparr>)"
  by (simp add: example_defs endpoint_defs)

section \<open>Sends that are turned down\<close>

text \<open>
  C5, as claimed, fails: in a room that has been deactivated, a send by somebody who is
  not a participant is turned down as \<open>InvalidState\<close> (400 "... is not active"), since
  the activity check comes before the participant check; the error is not \<open>Forbidden\<close>.
\<close>

theorem non_participant_forbidden_counterexample:
  "send_message failing_service 5
     \<lparr>mc_chat_room_id = 1, mc_sender_id = ''carol'', mc_content = ''hey''\<rparr> closed_room_db
     = (Inl InvalidState, closed_room_db)
   \<and> fst (send_message failing_service 5
            \<lparr>mc_chat_room_id = 1, mc_sender_id = ''carol'', mc_content = ''hey''\<rparr> closed_room_db)
     \<noteq> Inl Forbidden"
  by (simp add: closed_room_db_def alice_bob_room_def send_message_def)

text \<open>
  C5, amended. For every stored room and every send whose sender is neither of the room's
  participants, the call fails and the store is unchanged (no message row, no change of
  the room's last-message timestamp); the error is \<open>Forbidden\<close> when the room is active
  and \<open>InvalidState\<close> when it is not.
\<close>

theorem non_participant_send_rejected:
  assumes "find (\<lambda>r. room_id r = mc_chat_room_id message) (chat_rooms db) = Some chat_room"
      and "mc_sender_id message \<noteq> user1_id chat_room"
      and "mc_sender_id message \<noteq> user2_id chat_room"
  shows "send_message srv now message db
           = (Inl (if is_active chat_room then Forbidden else InvalidState), db)"
  using assms by (simp add: send_message_def)

theorem non_participant_send_rejected_witness:
  "send_message failing_service 5
     \<lparr>mc_chat_room_id = 1, mc_sender_id = ''carol'', mc_content = ''hey''\<rparr> alice_bob_db
     = (Inl Forbidden, alice_bob_db)"
proof -
  have f: "find (\<lambda>r. room_id r = mc_chat_room_id
                 \<lparr>mc_chat_room_id = 1, mc_sender_id = ''carol'', mc_content = ''hey''\<rparr>)
             (chat_rooms alice_bob_db) = Some alice_bob_room"
    by (simp add: alice_bob_db_def alice_bob_room_def)
  have p1: "mc_sender_id \<lparr>mc_chat_room_id = 1, mc_sender_id = ''carol'', mc_content = ''hey''\<rparr>
              \<noteq> user1_id alice_bob_room"
    by (simp add: alice_bob_room_def)
  have p2: "mc_sender_id \<lparr>mc_chat_room_id = 1, mc_sender_id = ''carol'', mc_content = ''hey''\<rparr>
              \<noteq> user2_id alice_bob_room"
    by (simp add: alice_bob_room_def)
  have a: "is_active alice_bob_room"
    by (simp add: alice_bob_room_def)
  show ?thesis
    using non_participant_send_rejected [OF f p1 p2, of failing_service 5] a by simp
qed

section \<open>Creating rooms\<close>

text \<open>
  C6. In every store that holds a room for a trade-offer id, \<open>create_chat_room\<close> with
  that trade-offer id fails with \<open>Conflict\<close> and returns the store as it was, so the
  existing room is unchanged.
\<close>

theorem create_chat_room_conflict:
  assumes "list_ex (\<lambda>r. trade_offer_id r = cr_trade_offer_id chat_room) (chat_rooms db)"
  shows "create_chat_room now chat_room db = (Inl Conflict, db)"
proof -
  have "find (\<lambda>r. trade_offer_id r = cr_trade_offer_id chat_room) (chat_rooms db) \<noteq> None"
    using assms unfolding find_None_iff list_ex_iff by blast
  then show ?thesis
    by (auto simp: create_chat_room_def)
qed

theorem create_chat_room_conflict_witness:
  "create_chat_room 9
     \<lparr>cr_trade_offer_id = 100, cr_user1_id = ''carol'', cr_user2_id = ''dave''\<rparr> alice_bob_db
     = (Inl Conflict, alice_bob_db)"
proof -
  have h: "list_ex (\<lambda>r. trade_offer_id r = cr_trade_offer_id
                     \<lparr>cr_trade_offer_id = 100, cr_user1_id = ''carol'', cr_user2_id = ''dave''\<rparr>)
             (chat_rooms alice_bob_db)"
    by (simp add: alice_bob_db_def alice_bob_room_def)
  show ?thesis
    by (rule create_chat_room_conflict [OF h])
qed

lemma create_twice_example:
  "snd (create_chat_room 1
          \<lparr>cr_trade_offer_id = 100, cr_user1_id = ''alice'', cr_user2_id = ''bob''\<rparr>
          empty_database)
     = \<lparr>chat_rooms = [alice_bob_room\<lparr>last_message_at := None, room_updated_at := 1\<rparr>],
        messages = []\<rparr>"
  by (simp add: example_defs endpoint_defs)

lemma participants_map_update:
  "(\<And>r. participants (f r) = participants r) \<Longrightarrow>
   map participants (map (\<lambda>r. if room_id r = i then f r else r) rs) = map participants rs"
  by (induction rs) auto

lemma step_participants:
  "\<exists>ys. map participants (chat_rooms (step x db)) = map participants (chat_rooms db) @ ys"
proof (cases x)
  case (CreateRoom now c)
  then show ?thesis
    by (simp add: create_chat_room_def Let_def split: option.splits)
next
  case (Deactivate now i)
  have "map participants (chat_rooms (snd (deactivate_chat_room now i db)))
          = map participants (chat_rooms db)"
    by (simp add: deactivate_chat_room_def Let_def update_room_def participants_map_update
        participants_def split: option.splits)
  with Deactivate show ?thesis by simp
next
  case (SendMessage srv now msg)
  have "map participants (chat_rooms (snd (send_message srv now msg db)))
          = map participants (chat_rooms db)"
    by (simp add: send_message_def Let_def update_room_def participants_map_update
        participants_def snd_sum_case split: option.splits)
  with SendMessage show ?thesis by simp
next
  case (UpdateStatus now mid mu)
  then show ?thesis
    by (simp add: update_message_def Let_def split: option.splits)
next
  case (MarkRoomRead now rid uid)
  then show ?thesis
    by (simp add: mark_messages_as_read_def Let_def split: option.splits)
qed

lemma run_participants:
  "\<exists>ys. map participants (chat_rooms (run ops db)) = map participants (chat_rooms db) @ ys"
proof (induction ops arbitrary: db)
  case Nil
  then show ?case by simp
next
  case (Cons x xs)
  obtain ys where a:
    "map participants (chat_rooms (step x db)) = map participants (chat_rooms db) @ ys"
    using step_participants by blast
  obtain zs where b:
    "map participants (chat_rooms (run xs (step x db)))
       = map participants (chat_rooms (step x db)) @ zs"
    using Cons.IH by blast
  show ?case using a b by simp
qed

text \<open>
  C8, as claimed, fails: \<open>create_chat_room\<close> compares nothing but the trade-offer id, so
  a request naming the same user twice creates a room whose two participants are equal.
\<close>

theorem distinct_participants_counterexample:
  "create_chat_room 1
     \<lparr>cr_trade_offer_id = 7, cr_user1_id = ''alice'', cr_user2_id = ''alice''\<rparr> empty_database
   = (Inr \<lparr>room_id = 1, trade_offer_id = 7, user1_id = ''alice'', user2_id = ''alice'',
           is_active = True, last_message_at = None, room_created_at = 1,
           room_updated_at = 1\<rparr>,
      \<lparr>chat_rooms =
         [\<lparr>room_id = 1, trade_offer_id = 7, user1_id = ''alice'', user2_id = ''alice'',
           is_active = True, last_message_at = None, room_created_at = 1,
           room_updated_at = 1\<rparr>],
       messages = []\<rparr>)"
  by (simp add: create_chat_room_def empty_database_def next_id_def Let_def)

text \<open>
  C8, amended. A room made by \<open>create_chat_room\<close> carries the two participant ids of
  the request as they were supplied, so they are distinct exactly when the request's are;
  and no sequence of operations changes the key or the participant ids of a stored room
  (the rooms of the store keep their places, new ones are added behind them).
\<close>

theorem create_chat_room_participants:
  "(create_chat_room now c db = (Inr r, db') \<longrightarrow>
      user1_id r = cr_user1_id c \<and> user2_id r = cr_user2_id c
      \<and> (user1_id r \<noteq> user2_id r) = (cr_user1_id c \<noteq> cr_user2_id c)
      \<and> r \<in> set (chat_rooms db'))
   \<and> take (length (chat_rooms db)) (map participants (chat_rooms (run ops db)))
       = map participants (chat_rooms db)"
proof -
  obtain ys where
    "map participants (chat_rooms (run ops db)) = map participants (chat_rooms db) @ ys"
    using run_participants by blast
  then have "take (length (chat_rooms db)) (map participants (chat_rooms (run ops db)))
       = map participants (chat_rooms db)" by simp
  then show ?thesis
    by (auto simp: create_chat_room_def Let_def split: option.splits)
qed

theorem create_chat_room_participants_witness:
  "user1_id (alice_bob_room\<lparr>last_message_at := None, room_updated_at := 1\<rparr>) = ''alice''
   \<and> user2_id (alice_bob_room\<lparr>last_message_at := None, room_updated_at := 1\<rparr>) = ''bob''
   \<and> take (length (chat_rooms empty_database))
       (map participants (chat_rooms (run [create_alice_bob, alice_says_hi] empty_database)))
       = map participants (chat_rooms empty_database)"
proof -
  have h: "create_chat_room 1
             \<lparr>cr_trade_offer_id = 100, cr_user1_id = ''alice'', cr_user2_id = ''bob''\<rparr>
             empty_database
           = (Inr (alice_bob_room\<lparr>last_message_at := None, room_updated_at := 1\<rparr>),
              \<lparr>chat_rooms = [alice_bob_room\<lparr>last_message_at := None, room_updated_at := 1\<rparr>],
               messages = []\<rparr>)"
    by (simp add: example_defs endpoint_defs)
  show ?thesis
    using h create_chat_room_participants
            [of 1 "\<lparr>cr_trade_offer_id = 100, cr_user1_id = ''alice'', cr_user2_id = ''bob''\<rparr>"
                empty_database "alice_bob_room\<lparr>last_message_at := None, room_updated_at := 1\<rparr>"
                "\<lparr>chat_rooms = [alice_bob_room\<lparr>last_message_at := None, room_updated_at := 1\<rparr>],
                  messages = []\<rparr>"
                "[create_alice_bob, alice_says_hi]"]
    by simp
qed

section \<open>Updating a message without a status\<close>

text \<open>
  C10. For every stored message, \<open>update_message\<close> with no status in the request returns
  the stored message as it is and leaves the store unchanged, so the message keeps its
  status and its read timestamp.
\<close>

theorem update_message_without_status:
  assumes "find (\<lambda>m. msg_id m = message_id) (messages db) = Some message"
      and "mu_status message_update = None"
  shows "update_message now message_id message_update db = (Inr message, db)"
  using assms by (simp add: update_message_def)

theorem update_message_without_status_witness:
  "update_message 9 1 \<lparr>mu_status = None\<rparr> alice_bob_db = (Inr hi_message, alice_bob_db)"
proof -
  have f: "find (\<lambda>m. msg_id m = 1) (messages alice_bob_db) = Some hi_message"
    by (simp add: alice_bob_db_def hi_message_def)
  have n: "mu_status \<lparr>mu_status = None\<rparr> = None"
    by simp
  show ?thesis
    by (rule update_message_without_status [OF f n])
qed

section \<open>Listing the rooms of a user\<close>

lemma desc_before_total: "desc_before a b \<or> desc_before b a"
  by (cases a; cases b) auto

lemma desc_before_trans: "desc_before a b \<Longrightarrow> desc_before b c \<Longrightarrow> desc_before a c"
  by (cases a; cases b; cases c) auto

lemma mset_insert_desc: "mset (insert_desc key x xs) = add_mset x (mset xs)"
  by (induction xs) auto

lemma mset_order_by_desc: "mset (order_by_desc key xs) = mset xs"
  by (induction xs) (auto simp: mset_insert_desc)

lemma set_insert_desc: "set (insert_desc key x xs) = insert x (set xs)"
  by (induction xs) auto

lemma length_order_by_desc: "length (order_by_desc key xs) = length xs"
  using mset_order_by_desc [of key xs] by (metis size_mset)

lemma sorted_insert_desc:
  "sorted_wrt (\<lambda>a b. desc_before (key a) (key b)) xs \<Longrightarrow>
   sorted_wrt (\<lambda>a b. desc_before (key a) (key b)) (insert_desc key x xs)"
proof (induction xs)
  case Nil
  then show ?case by simp
next
  case (Cons y ys)
  show ?case
  proof (cases "desc_before (key x) (key y)")
    case True
    with Cons.prems show ?thesis
      by (auto intro: desc_before_trans)
  next
    case False
    then have "desc_before (key y) (key x)"
      using desc_before_total by blast
    with False Cons show ?thesis
      by (auto simp: set_insert_desc)
  qed
qed

lemma sorted_order_by_desc:
  "sorted_wrt (\<lambda>a b. desc_before (key a) (key b)) (order_by_desc key xs)"
  by (induction xs) (auto simp: sorted_insert_desc)

lemma shown_room_data: "shown_room (room_data u db r) = r"
  by (simp add: shown_room_def room_data_def Let_def)

lemma map_shown_room_data: "map shown_room (map (room_data u db) rs) = rs"
  by (induction rs) (simp_all add: shown_room_data)

lemma list_chat_rooms_rooms:
  "map shown_room (list_chat_rooms u active_only skip limit db)
     = take limit (drop skip (order_by_desc last_message_at
         (filter (\<lambda>r. (user1_id r = u \<or> user2_id r = u) \<and> (active_only \<longrightarrow> is_active r))
            (chat_rooms db))))"
proof -
  have "\<And>rs. map shown_room (map (room_data u db) rs) = rs"
    by (rule map_shown_room_data)
  then show ?thesis
    unfolding list_chat_rooms_def Let_def
    by (cases active_only) simp_all
qed

text \<open>
  C7. Write \<open>full\<close> for the room columns of the unpaginated answer (offset 0, a limit that
  covers the whole table). Then \<open>full\<close> holds exactly the rooms in which the user is
  \<open>user1_id\<close> or \<open>user2_id\<close>, each once, only the active ones when \<open>active_only\<close>;
  \<open>full\<close> is ordered by \<open>last_message_at\<close> descending, where \<open>desc_before\<close> lets
  any room stand before a room without messages and a room without messages stand only
  before another such room, so rooms without messages come last; and the answer for an
  offset and a limit is that slice of \<open>full\<close>.
\<close>

theorem list_chat_rooms_selected_ordered_paginated:
  "mset (map shown_room (list_chat_rooms u active_only 0 (length (chat_rooms db)) db))
     = mset (filter (\<lambda>r. (user1_id r = u \<or> user2_id r = u) \<and> (active_only \<longrightarrow> is_active r))
               (chat_rooms db))
   \<and> sorted_wrt (\<lambda>a b. desc_before (last_message_at a) (last_message_at b))
       (map shown_room (list_chat_rooms u active_only 0 (length (chat_rooms db)) db))
   \<and> map shown_room (list_chat_rooms u active_only skip limit db)
       = take limit (drop skip
           (map shown_room (list_chat_rooms u active_only 0 (length (chat_rooms db)) db)))"
proof -
  let ?sel = "filter (\<lambda>r. (user1_id r = u \<or> user2_id r = u) \<and> (active_only \<longrightarrow> is_active r))
            (chat_rooms db)"
  have "length (order_by_desc last_message_at ?sel) \<le> length (chat_rooms db)"
    by (simp add: length_order_by_desc)
  then have full: "map shown_room (list_chat_rooms u active_only 0 (length (chat_rooms db)) db)
      = order_by_desc last_message_at ?sel"
    by (simp add: list_chat_rooms_rooms)
  show ?thesis
    unfolding full
    by (simp add: mset_order_by_desc sorted_order_by_desc list_chat_rooms_rooms)
qed

lemma list_chat_rooms_example:
  "map wl_id (list_chat_rooms ''alice'' True 0 50 three_rooms_db) = [3, 1, 2]
   \<and> map wl_last_message_at (list_chat_rooms ''alice'' True 0 50 three_rooms_db)
       = [Some 7, Some 2, None]
   \<and> map wl_id (list_chat_rooms ''alice'' True 1 1 three_rooms_db) = [1]"
  by (simp add: list_chat_rooms_def room_data_def three_rooms_db_def alice_bob_room_def
      hi_message_def Let_def)

theorem list_chat_rooms_selected_ordered_paginated_witness:
  "mset (map shown_room (list_chat_rooms ''alice'' True 0 (length (chat_rooms three_rooms_db))
           three_rooms_db))
     = mset (filter (\<lambda>r. (user1_id r = ''alice'' \<or> user2_id r = ''alice'') \<and> is_active r)
               (chat_rooms three_rooms_db))
   \<and> sorted_wrt (\<lambda>a b. desc_before (last_message_at a) (last_message_at b))
       (map shown_room (list_chat_rooms ''alice'' True 0 (length (chat_rooms three_rooms_db))
          three_rooms_db))
   \<and> map shown_room (list_chat_rooms ''alice'' True 1 1 three_rooms_db)
       = take 1 (drop 1
           (map shown_room (list_chat_rooms ''alice'' True 0 (length (chat_rooms three_rooms_db))
              three_rooms_db)))"
  using list_chat_rooms_selected_ordered_paginated [of "''alice''" True three_rooms_db 1 1]
  by simp

section \<open>Statistics\<close>

lemma or_0_count [simp]: "or_0 (count_scalar xs) = length xs"
  by (simp add: or_0_def count_scalar_def)

lemma or_0_Some [simp]: "or_0 (Some n) = n"
  by (simp add: or_0_def)

lemma fk_no_rooms: "foreign_key_ok db \<Longrightarrow> chat_rooms db = [] \<Longrightarrow> messages db = []"
  by (cases "messages db") (simp_all add: foreign_key_ok_def)

lemma step_room_ids:
  "set (map room_id (chat_rooms db)) \<subseteq> set (map room_id (chat_rooms (step x db)))"
proof -
  obtain ys where
    "map participants (chat_rooms (step x db)) = map participants (chat_rooms db) @ ys"
    using step_participants by blast
  then have "map fst (map participants (chat_rooms (step x db)))
               = map fst (map participants (chat_rooms db) @ ys)"
    by simp
  then have "map room_id (chat_rooms (step x db)) = map room_id (chat_rooms db) @ map fst ys"
    by (simp add: participants_def comp_def)
  then show ?thesis by auto
qed

lemma step_messages_rooms:
  "set (map chat_room_id (messages (step x db)))
     \<subseteq> set (map chat_room_id (messages db)) \<union> set (map room_id (chat_rooms db))"
proof (cases x)
  case (CreateRoom now c)
  then show ?thesis by (simp add: messages_create)
next
  case (Deactivate now i)
  then show ?thesis by (simp add: messages_deactivate)
next
  case (SendMessage srv now msg)
  then show ?thesis
    using messages_send [of srv now msg db] by auto
next
  case (UpdateStatus now mid mu)
  then show ?thesis
    by (auto simp: update_message_def update_msg_def Let_def split: option.splits if_splits)
next
  case (MarkRoomRead now rid uid)
  then show ?thesis
    by (auto simp: mark_messages_as_read_def set_read_def Let_def split: option.splits if_splits)
qed

lemma step_foreign_key_ok: "foreign_key_ok db \<Longrightarrow> foreign_key_ok (step x db)"
proof -
  assume "foreign_key_ok db"
  then have "set (map chat_room_id (messages db)) \<subseteq> set (map room_id (chat_rooms db))"
    by (auto simp: foreign_key_ok_def list_all_iff)
  then have "set (map chat_room_id (messages (step x db)))
               \<subseteq> set (map room_id (chat_rooms (step x db)))"
    using step_messages_rooms [of x db] step_room_ids [of db x] by blast
  then show ?thesis
    by (auto simp: foreign_key_ok_def list_all_iff)
qed

lemma run_foreign_key_ok: "foreign_key_ok (run ops empty_database)"
proof -
  have "\<And>db. foreign_key_ok db \<Longrightarrow> foreign_key_ok (run ops db)"
    by (induction ops) (simp_all add: step_foreign_key_ok)
  then show ?thesis
    by (simp add: foreign_key_ok_def empty_database_def)
qed

text \<open>
  C9, as claimed, fails for the user whose id is the empty string (an id that
  \<open>create_chat_room\<close> accepts): \<open>if user_id:\<close> takes the empty string for no user, so
  the call answers with the global counters. In the example that user takes part in no
  room, yet all counters are 1.
\<close>

theorem statistics_empty_user_id_counterexample:
  "get_statistics (Some []) alice_bob_db
     = \<lparr>total_rooms = 1, active_rooms = 1, total_messages = 1, total_unread_messages = 1\<rparr>
   \<and> filter (\<lambda>r. user1_id r = [] \<or> user2_id r = []) (chat_rooms alice_bob_db) = []"
  by (simp add: get_statistics_def truthy_def global_statistics_def alice_bob_db_def
      alice_bob_room_def hi_message_def)

text \<open>
  C9, amended. \<open>get_statistics\<close> is total and its four counters are numbers. When the
  rooms it ranges over (\<open>scope\<close>) are none, in a store whose messages all belong to stored
  rooms, all four counters are 0. For a user id that is not the empty string, the unread
  counter is the number of messages that lie in a room of that user, have a status other
  than \<open>read\<close> and were not sent by that user. With the empty string as user id the call
  ranges over all rooms, as without a user id.
\<close>

theorem get_statistics_counters:
  "(scope user_id db = [] \<and> foreign_key_ok db \<longrightarrow>
      get_statistics user_id db
        = \<lparr>total_rooms = 0, active_rooms = 0, total_messages = 0, total_unread_messages = 0\<rparr>)
   \<and> (u \<noteq> [] \<longrightarrow>
        total_unread_messages (get_statistics (Some u) db)
          = length (filter
              (\<lambda>m. chat_room_id m
                     \<in> set (map room_id
                          (filter (\<lambda>r. user1_id r = u \<or> user2_id r = u) (chat_rooms db)))
                   \<and> status m \<noteq> read \<and> sender_id m \<noteq> u)
              (messages db)))
   \<and> get_statistics (Some []) db = get_statistics None db"
proof -
  have g: "chat_rooms db = [] \<Longrightarrow> foreign_key_ok db \<Longrightarrow>
      global_statistics db
        = \<lparr>total_rooms = 0, active_rooms = 0, total_messages = 0, total_unread_messages = 0\<rparr>"
    using fk_no_rooms [of db] by (simp add: global_statistics_def Let_def)
  have us: "\<And>v. filter (\<lambda>r. user1_id r = v \<or> user2_id r = v) (chat_rooms db) = [] \<Longrightarrow>
      user_statistics v db
        = \<lparr>total_rooms = 0, active_rooms = 0, total_messages = 0, total_unread_messages = 0\<rparr>"
    by (simp add: user_statistics_def Let_def filter_empty_conv)
  have a: "scope user_id db = [] \<and> foreign_key_ok db \<longrightarrow>
      get_statistics user_id db
        = \<lparr>total_rooms = 0, active_rooms = 0, total_messages = 0, total_unread_messages = 0\<rparr>"
    using g us by (auto simp: scope_def get_statistics_def split: option.splits if_splits)
  have c: "\<And>m. (chat_room_id m
                     \<in> set (map room_id
                          (filter (\<lambda>r. user1_id r = u \<or> user2_id r = u) (chat_rooms db)))
                   \<and> status m \<noteq> read \<and> sender_id m \<noteq> u)
            = (chat_room_id m
                     \<in> set (map room_id
                          (filter (\<lambda>r. user1_id r = u \<or> user2_id r = u) (chat_rooms db)))
                   \<and> sender_id m \<noteq> u \<and> status m \<noteq> read)"
    by blast
  have b: "u \<noteq> [] \<Longrightarrow>
        total_unread_messages (get_statistics (Some u) db)
          = length (filter
              (\<lambda>m. chat_room_id m
                     \<in> set (map room_id
                          (filter (\<lambda>r. user1_id r = u \<or> user2_id r = u) (chat_rooms db)))
                   \<and> status m \<noteq> read \<and> sender_id m \<noteq> u)
              (messages db))"
    unfolding c
    by (cases "filter (\<lambda>r. user1_id r = u \<or> user2_id r = u) (chat_rooms db) = []")
       (simp_all add: get_statistics_def truthy_def user_statistics_def Let_def)
  have d: "get_statistics (Some []) db = get_statistics None db"
    by (simp add: get_statistics_def truthy_def)
  show ?thesis using a b d by blast
qed

theorem get_statistics_counters_witness:
  "get_statistics (Some ''carol'') alice_bob_db
     = \<lparr>total_rooms = 0, active_rooms = 0, total_messages = 0, total_unread_messages = 0\<rparr>
   \<and> total_unread_messages (get_statistics (Some ''bob'') alice_bob_db)
       = length (filter
           (\<lambda>m. chat_room_id m
                  \<in> set (map room_id
                       (filter (\<lambda>r. user1_id r = ''bob'' \<or> user2_id r = ''bob'')
                          (chat_rooms alice_bob_db)))
                \<and> status m \<noteq> read \<and> sender_id m \<noteq> ''bob'')
           (messages alice_bob_db))
   \<and> get_statistics (Some []) alice_bob_db = get_statistics None alice_bob_db"
proof -
  have h1: "scope (Some ''carol'') alice_bob_db = [] \<and> foreign_key_ok alice_bob_db"
    by (simp add: scope_def truthy_def foreign_key_ok_def alice_bob_db_def alice_bob_room_def
        hi_message_def)
  have h2: "''bob'' \<noteq> []"
    by simp
  show ?thesis
    using h1 h2 get_statistics_counters [of "Some ''carol''" alice_bob_db "''bob''"]
    by blast
qed

lemma statistics_example:
  "get_statistics (Some ''bob'') alice_bob_db
     = \<lparr>total_rooms = 1, active_rooms = 1, total_messages = 1, total_unread_messages = 1\<rparr>
   \<and> get_statistics (Some ''alice'') alice_bob_db
     = \<lparr>total_rooms = 1, active_rooms = 1, total_messages = 1, total_unread_messages = 0\<rparr>
   \<and> get_statistics None empty_database
     = \<lparr>total_rooms = 0, active_rooms = 0, total_messages = 0, total_unread_messages = 0\<rparr>"
  by (simp add: get_statistics_def truthy_def user_statistics_def global_statistics_def
      alice_bob_db_def alice_bob_room_def hi_message_def empty_database_def Let_def)

end
